theory Spec2Isabelle
  imports Complex_Main "HOL-Library.List_Lexorder" "HOL-Library.Char_ord"
begin

section \<open>Data model\<close>

text \<open>
  One row of the provider's lap table, with the columns \<^verbatim>\<open>master_analysis.py\<close> reads.
  Float columns that the provider leaves empty (NaN, NaT) are options: a lap without a
  lap time has \<open>LapTime = None\<close>, a crash lap has \<open>Position = None\<close>. Lap and stint
  numbers are whole numbers. Times are in seconds and are exact reals.
\<close>

record lap =
  Driver :: string
  Stint :: int
  LapNumber :: int
  LapTime :: "real option"
  SpeedST :: "real option"
  TrackStatus :: string
  PitInTime :: "real option"
  PitOutTime :: "real option"
  Position :: "int option"

text \<open>One row of \<^verbatim>\<open>session.results\<close>; \<open>ResultPosition\<close> is its column \<^verbatim>\<open>Position\<close>.\<close>

record result_row =
  Abbreviation :: string
  TeamName :: string
  GridPosition :: "int option"
  ResultPosition :: "int option"
  Points :: real

record session =
  results :: "result_row list"
  laps :: "lap list"

record event =
  EventName :: string
  EventDate :: string
  EventFormat :: string

text \<open>
  The exceptions that reach the code under study: the ValueError of SciPy and pandas,
  and whatever the data provider raises for a schedule or a session.
\<close>

datatype py_error = ValueError | ProviderError

section \<open>Series helpers (pandas, NumPy, SciPy as documented)\<close>

text \<open>\<^verbatim>\<open>Series.unique()\<close>: the distinct values in order of first appearance.\<close>

definition unique :: "'a list \<Rightarrow> 'a list" where
  "unique xs = rev (remdups (rev xs))"

text \<open>The values of a float column that are present (pandas skips NaN in reductions).\<close>

primrec dropna :: "'a option list \<Rightarrow> 'a list" where
  "dropna [] = []"
| "dropna (v # vs) = (case v of None \<Rightarrow> dropna vs | Some x \<Rightarrow> x # dropna vs)"

text \<open>\<^verbatim>\<open>np.mean\<close> of a non-empty list of numbers.\<close>

definition np_mean :: "real list \<Rightarrow> real" where
  "np_mean xs = sum_list xs / real (length xs)"

text \<open>\<^verbatim>\<open>Series.mean()\<close>: the mean of the present values, NaN (None) when there is none.\<close>

definition series_mean :: "real option list \<Rightarrow> real option" where
  "series_mean vs = (if dropna vs = [] then None else Some (np_mean (dropna vs)))"

text \<open>
  \<^verbatim>\<open>Series.std()\<close> on a column without NaN: the sample standard deviation
  (one degree of freedom removed). The caller passes at least three values.
\<close>

definition series_std :: "real list \<Rightarrow> real" where
  "series_std xs =
     sqrt (sum_list (map (\<lambda>x. (x - np_mean xs)\<^sup>2) xs) / (real (length xs) - 1))"

text \<open>\<^verbatim>\<open>Series.min()\<close> and \<^verbatim>\<open>Series.max()\<close> of the present values.\<close>

fun amin :: "'a::linorder list \<Rightarrow> 'a" where
  "amin (x # xs) = fold min xs x"
| "amin [] = undefined"

fun amax :: "'a::linorder list \<Rightarrow> 'a" where
  "amax (x # xs) = fold max xs x"
| "amax [] = undefined"

text \<open>
  \<^verbatim>\<open>scipy.stats.linregress(x, y).slope\<close>. SciPy raises ValueError on empty input,
  on inputs of different length, and when there are at least two points and all
  \<open>x\<close> are identical; otherwise the slope is the covariance of \<open>x\<close> and \<open>y\<close> over the
  variance of \<open>x\<close> (both with divisor \<open>n\<close>).
\<close>

definition ssxm :: "real list \<Rightarrow> real" where
  "ssxm x = sum_list (map (\<lambda>a. (a - np_mean x)\<^sup>2) x) / real (length x)"

definition ssxym :: "real list \<Rightarrow> real list \<Rightarrow> real" where
  "ssxym x y =
     sum_list (map (\<lambda>(a, b). (a - np_mean x) * (b - np_mean y)) (zip x y)) / real (length x)"

definition linregress :: "real list \<Rightarrow> real list \<Rightarrow> py_error + real" where
  "linregress x y =
     (if x = [] \<or> y = [] then Inl ValueError
      else if length x \<noteq> length y then Inl ValueError
      else if 1 < length x \<and> amax x = amin x then Inl ValueError
      else Inr (ssxym x y / ssxm x))"

section \<open>get\_stint\_performance\<close>

text \<open>The provider's lap filters, as FastF1 documents them.\<close>

definition pick_drivers :: "lap list \<Rightarrow> string \<Rightarrow> lap list" where
  "pick_drivers ls d = filter (\<lambda>l. Driver l = d) ls"

definition pick_wo_box :: "lap list \<Rightarrow> lap list" where
  "pick_wo_box ls = filter (\<lambda>l. PitInTime l = None \<and> PitOutTime l = None) ls"

definition pick_track_status :: "string \<Rightarrow> lap list \<Rightarrow> lap list" where
  "pick_track_status s ls = filter (\<lambda>l. TrackStatus l = s) ls"

definition pick_laps :: "int \<Rightarrow> lap list \<Rightarrow> lap list" where
  "pick_laps n ls = filter (\<lambda>l. LapNumber l = n) ls"

text \<open>Line 89: the clean laps of one stint of one driver.\<close>

definition clean_laps :: "lap list \<Rightarrow> int \<Rightarrow> lap list" where
  "clean_laps driver_laps stint =
     pick_track_status ''1'' (pick_wo_box (filter (\<lambda>l. Stint l = stint) driver_laps))"

text \<open>
  Lines 94-95: keep the laps whose time in seconds is below the mean plus 5. A
  comparison with NaN is false, so a lap without a time is dropped, and so is every
  lap when no lap has a time.
\<close>

definition final_laps :: "lap list \<Rightarrow> lap list" where
  "final_laps clean =
     (case series_mean (map LapTime clean) of
        None \<Rightarrow> []
      | Some m \<Rightarrow>
          filter (\<lambda>l. case LapTime l of None \<Rightarrow> False | Some t \<Rightarrow> t < m + 5) clean)"

text \<open>Line 105: the column \<^verbatim>\<open>StintLap\<close>.\<close>

definition StintLap :: "lap list \<Rightarrow> int list" where
  "StintLap final = map (\<lambda>l. LapNumber l - amin (map Stint final) + 1) final"

text \<open>The two lists of the driver loop.\<close>

record stint_acc =
  driver_degs :: "real list"
  driver_cons :: "real list"

datatype stint_exit = NotEnoughData | Completed | Caught py_error

text \<open>
  The body of the stint loop (lines 85-111): how it left the \<^verbatim>\<open>try\<close> block, and the
  two lists afterwards. The consistency is appended before the regression runs.
\<close>

definition stint_body :: "lap list \<Rightarrow> int \<Rightarrow> stint_acc \<Rightarrow> stint_exit \<times> stint_acc" where
  "stint_body driver_laps stint acc =
     (let clean = clean_laps driver_laps stint in
      if length clean < 3 then (NotEnoughData, acc)
      else
        let final = final_laps clean in
        if length final < 3 then (NotEnoughData, acc)
        else
          let secs = dropna (map LapTime final);
              acc1 = acc\<lparr>driver_cons := driver_cons acc @ [series_std secs]\<rparr>
          in case linregress (map real_of_int (StintLap final)) secs of
               Inl e \<Rightarrow> (Caught e, acc1)
             | Inr slope \<Rightarrow> (Completed, acc1\<lparr>driver_degs := driver_degs acc1 @ [slope]\<rparr>))"

primrec stint_loop :: "lap list \<Rightarrow> int list \<Rightarrow> stint_acc \<Rightarrow> stint_acc" where
  "stint_loop driver_laps [] acc = acc"
| "stint_loop driver_laps (stint # rest) acc =
     stint_loop driver_laps rest (snd (stint_body driver_laps stint acc))"

text \<open>One driver's record (lines 78-119): none when no stint gave a degradation.\<close>

record stint_perf_row =
  AvgDegradation :: real
  AvgConsistency :: real

definition driver_stint_row :: "lap list \<Rightarrow> string \<Rightarrow> (string \<times> stint_perf_row) list" where
  "driver_stint_row all_laps driver =
     (let driver_laps = pick_drivers all_laps driver;
          stints = unique (map Stint driver_laps);
          acc = stint_loop driver_laps stints \<lparr>driver_degs = [], driver_cons = []\<rparr>
      in if driver_degs acc \<noteq> []
         then [(driver, \<lparr>AvgDegradation = np_mean (driver_degs acc),
                         AvgConsistency = np_mean (driver_cons acc)\<rparr>)]
         else [])"

definition get_stint_performance :: "lap list \<Rightarrow> (string \<times> stint_perf_row) list" where
  "get_stint_performance all_laps =
     concat (map (driver_stint_row all_laps) (unique (map Driver all_laps)))"

section \<open>get\_top\_speeds\<close>

text \<open>
  \<^verbatim>\<open>groupby('Driver')['SpeedST'].max()\<close>: one entry per driver that has a lap, in
  sorted key order; the maximum skips NaN and is NaN for a driver without any speed.
  The handler of the \<^verbatim>\<open>try\<close> block returns an empty frame when the body raises; on
  typed rows no step of the body raises, so no input reaches that branch.
\<close>

definition group_max :: "real option list \<Rightarrow> real option" where
  "group_max vs = (if dropna vs = [] then None else Some (amax (dropna vs)))"

definition get_top_speeds :: "lap list \<Rightarrow> (string \<times> real option) list" where
  "get_top_speeds all_laps =
     map (\<lambda>d. (d, group_max (map SpeedST (pick_drivers all_laps d))))
       (sort (remdups (map Driver all_laps)))"

section \<open>get\_start\_performance\<close>

text \<open>
  \<^verbatim>\<open>pd.merge(left, right, left_on=..., right_on=...)\<close> with the default inner join:
  the pairs of rows with equal keys, in the order of the left rows.
\<close>

definition pd_merge :: "('a \<Rightarrow> 'k) \<Rightarrow> ('b \<Rightarrow> 'k) \<Rightarrow> 'a list \<Rightarrow> 'b list \<Rightarrow> ('a \<times> 'b) list" where
  "pd_merge left_on right_on left right =
     concat (map (\<lambda>a. map (\<lambda>b. (a, b)) (filter (\<lambda>b. right_on b = left_on a) right)) left)"

text \<open>Float comparison and subtraction; NaN compares false and propagates.\<close>

fun nan_gt :: "int option \<Rightarrow> int \<Rightarrow> bool" where
  "nan_gt (Some a) b = (b < a)"
| "nan_gt None b = False"

fun nan_sub :: "int option \<Rightarrow> int option \<Rightarrow> int option" where
  "nan_sub (Some a) (Some b) = Some (a - b)"
| "nan_sub a b = None"

text \<open>
  Lines 43-64; the result is the column \<^verbatim>\<open>PositionsGained\<close> indexed by \<^verbatim>\<open>Driver\<close>.
  As in \<open>get_top_speeds\<close>, no step of the body raises on typed rows, so the handler's
  empty frame is not modelled.
\<close>

definition get_start_performance :: "session \<Rightarrow> (string \<times> int option) list" where
  "get_start_performance s =
     (let grid_df = results s;
          lap_1_df = pick_laps 1 (laps s);
          start_analysis = pd_merge Abbreviation Driver grid_df lap_1_df;
          start_analysis = filter (\<lambda>(g, l). nan_gt (GridPosition g) 0) start_analysis
      in map (\<lambda>(g, l). (Driver l, nan_sub (GridPosition g) (Position l))) start_analysis)"

section \<open>The per-race table\<close>

text \<open>
  \<^verbatim>\<open>DataFrame.join\<close> with a list of frames and the default \<^verbatim>\<open>how='left'\<close>, one frame at a
  time: every left row is kept; it is paired with each right row of the same index, or
  with a null when there is none. (pandas concatenates the frames when every index is
  unique and merges them one after the other otherwise; on unique indexes both give
  these rows.)
\<close>

definition left_join :: "('k \<times> 'a) list \<Rightarrow> ('k \<times> 'b) list \<Rightarrow> ('k \<times> 'a \<times> 'b option) list" where
  "left_join left right =
     concat (map (\<lambda>(k, a).
        (case filter (\<lambda>(k', b). k' = k) right of
           [] \<Rightarrow> [(k, a, None)]
         | m # ms \<Rightarrow> map (\<lambda>(k', b). (k, a, Some b)) (m # ms))) left)"

record race_row =
  row_Driver :: string
  row_TeamName :: string
  row_Position :: "int option"
  row_Points :: real
  TopSpeedST :: "real option"
  PositionsGained :: "int option"
  row_AvgDegradation :: "real option"
  row_AvgConsistency :: "real option"
  RaceName :: string
  RaceDate :: string
  Season :: int

text \<open>A null cell of the joined frame, or the cell's own value (itself NaN or a number).\<close>

definition cell :: "'a option option \<Rightarrow> 'a option" where
  "cell c = (case c of None \<Rightarrow> None | Some v \<Rightarrow> v)"

text \<open>Lines 155-175 of \<^verbatim>\<open>main\<close>, for a session that has loaded.\<close>

definition race_df :: "session \<Rightarrow> event \<Rightarrow> int \<Rightarrow> race_row list" where
  "race_df s ev year =
     (let top_speeds = get_top_speeds (laps s);
          start_perf = get_start_performance s;
          stint_perf = get_stint_performance (laps s);
          res = map (\<lambda>r. (Abbreviation r, r)) (results s);
          joined = left_join (left_join (left_join res top_speeds) start_perf) stint_perf
      in map (\<lambda>(d, ((r, ts), sp), st).
           \<lparr>row_Driver = d, row_TeamName = TeamName r, row_Position = ResultPosition r,
            row_Points = Points r, TopSpeedST = cell ts, PositionsGained = cell sp,
            row_AvgDegradation = map_option AvgDegradation st,
            row_AvgConsistency = map_option AvgConsistency st,
            RaceName = EventName ev, RaceDate = EventDate ev, Season = year\<rparr>) joined)"

section \<open>main\<close>


datatype log_entry =
    ProcessingYear int
  | ProcessingRace string int
  | Processed string
  | CouldNotProcess string int py_error







section \<open>The specification's in-stint lap index\<close>

text \<open>
  The lap index as the specification words it: the lap number minus the first lap
  number of the stint, plus one. It is compared below with the column the code builds.
\<close>

definition spec_StintLap :: "lap list \<Rightarrow> lap list \<Rightarrow> int list" where
  "spec_StintLap stint_laps final =
     map (\<lambda>l. LapNumber l - amin (map LapNumber stint_laps) + 1) final"

section \<open>Example data\<close>

text \<open>A lap under green flag, away from the pit lane, with a lap time.\<close>

definition green_lap :: "string \<Rightarrow> int \<Rightarrow> int \<Rightarrow> real \<Rightarrow> lap" where
  "green_lap d st n t =
     \<lparr>Driver = d, Stint = st, LapNumber = n, LapTime = Some t, SpeedST = None,
      TrackStatus = ''1'', PitInTime = None, PitOutTime = None, Position = None\<rparr>"

text \<open>A second stint that runs from lap 20 to lap 22.\<close>

definition ex_second_stint :: "lap list" where
  "ex_second_stint =
     [green_lap ''VER'' 2 20 90, green_lap ''VER'' 2 21 91, green_lap ''VER'' 2 22 92]"


text \<open>
  A first stint whose three rows carry the same lap number, so that the regression
  raises, followed by a regular second stint.
\<close>

definition ex_repeated_lap :: "lap list" where
  "ex_repeated_lap =
     [green_lap ''VER'' 1 5 90, green_lap ''VER'' 1 5 92, green_lap ''VER'' 1 5 94,
      green_lap ''VER'' 2 6 90, green_lap ''VER'' 2 7 90, green_lap ''VER'' 2 8 90]"

definition ex_increasing :: "lap list" where
  "ex_increasing =
     [green_lap ''VER'' 1 1 90, green_lap ''VER'' 1 2 91, green_lap ''VER'' 1 3 92,
      green_lap ''VER'' 1 4 93]"

definition ex_constant :: "lap list" where
  "ex_constant = [green_lap ''VER'' 1 1 90, green_lap ''VER'' 1 2 90, green_lap ''VER'' 1 3 90]"

definition ex_two_laps :: "lap list" where
  "ex_two_laps = [green_lap ''VER'' 1 1 90, green_lap ''VER'' 1 2 91]"

definition ex_one_slow :: "lap list" where
  "ex_one_slow = [green_lap ''VER'' 1 1 90, green_lap ''VER'' 1 2 90, green_lap ''VER'' 1 3 100]"

text \<open>A classified driver with a grid position, and a first lap with a running position.\<close>

definition ex_result :: "string \<Rightarrow> int \<Rightarrow> result_row" where
  "ex_result d g =
     \<lparr>Abbreviation = d, TeamName = ''Team'', GridPosition = Some g,
      ResultPosition = Some 1, Points = 25\<rparr>"

definition first_lap :: "string \<Rightarrow> int \<Rightarrow> lap" where
  "first_lap d p =
     \<lparr>Driver = d, Stint = 1, LapNumber = 1, LapTime = Some 95, SpeedST = Some 310,
      TrackStatus = ''1'', PitInTime = None, PitOutTime = None, Position = Some p\<rparr>"

definition ex_p3_p5 :: session where
  "ex_p3_p5 = \<lparr>results = [ex_result ''VER'' 3], laps = [first_lap ''VER'' 5]\<rparr>"

definition ex_p10_p1 :: session where
  "ex_p10_p1 = \<lparr>results = [ex_result ''HAM'' 10], laps = [first_lap ''HAM'' 1]\<rparr>"

text \<open>
  A race in which HAM is classified but has no lap record at all, and BOT has a first
  lap but is not in the results.
\<close>

definition ex_missing :: session where
  "ex_missing =
     \<lparr>results = [ex_result ''VER'' 3, ex_result ''HAM'' 10],
      laps = [first_lap ''VER'' 5, first_lap ''BOT'' 2]\<rparr>"

text \<open>A schedule that opens with a race, and a provider that serves it for every year.\<close>

definition ex_event :: "string \<Rightarrow> string \<Rightarrow> event" where
  "ex_event n f = \<lparr>EventName = n, EventDate = ''2024-03-02'', EventFormat = f\<rparr>"





section \<open>Reading the log\<close>

text \<open>The races for which the loop announced processing, in order.\<close>

definition races_attempted :: "log_entry list \<Rightarrow> (string \<times> int) list" where
  "races_attempted lg =
     concat (map (\<lambda>e. case e of ProcessingRace n y \<Rightarrow> [(n, y)] | _ \<Rightarrow> []) lg)"

text \<open>
  A race in which VER runs one clean stint of three laps (times 90, 92, 94 s) after
  starting third and finishing the first lap fifth, HAM is classified without any lap
  record, and BOT has a single lap but is not in the results.
\<close>

definition race_lap :: "string \<Rightarrow> int \<Rightarrow> real \<Rightarrow> real \<Rightarrow> int \<Rightarrow> lap" where
  "race_lap d n t v p =
     \<lparr>Driver = d, Stint = 1, LapNumber = n, LapTime = Some t, SpeedST = Some v,
      TrackStatus = ''1'', PitInTime = None, PitOutTime = None, Position = Some p\<rparr>"

definition ex_race :: session where
  "ex_race =
     \<lparr>results = [ex_result ''VER'' 3, ex_result ''HAM'' 10],
      laps = [race_lap ''VER'' 1 90 310 5, race_lap ''VER'' 2 92 315 4,
              race_lap ''VER'' 3 94 312 4, race_lap ''BOT'' 1 95 300 2]\<rparr>"

section \<open>Evaluation on concrete laps\<close>

lemmas stint_defs = green_lap_def clean_laps_def pick_track_status_def pick_wo_box_def
  pick_drivers_def final_laps_def series_mean_def np_mean_def StintLap_def stint_body_def
  linregress_def ssxm_def ssxym_def series_std_def unique_def driver_stint_row_def
  get_stint_performance_def

section \<open>Facts about the stint loop\<close>

text \<open>Within the loop every final lap carries the stint's number, which line 105 subtracts.\<close>

lemma fold_min_const: "\<forall>v \<in> set xs. v = s \<Longrightarrow> fold min xs s = (s :: int)"
  by (induction xs) simp_all

lemma amin_const: "xs \<noteq> [] \<Longrightarrow> \<forall>v \<in> set xs. v = s \<Longrightarrow> amin xs = (s :: int)"
  by (cases xs) (simp_all add: fold_min_const)

lemma StintLap_of_stint:
  assumes "final \<noteq> []" and "\<forall>l \<in> set final. Stint l = s"
  shows "StintLap final = map (\<lambda>l. LapNumber l - s + 1) final"
proof -
  have "amin (map Stint final) = s"
    using assms by (intro amin_const) auto
  then show ?thesis by (simp add: StintLap_def)
qed

lemma final_laps_subset: "set (final_laps clean) \<subseteq> set clean"
  by (auto simp: final_laps_def split: option.splits)

lemma clean_laps_stint: "l \<in> set (clean_laps driver_laps stint) \<Longrightarrow> Stint l = stint"
  by (simp add: clean_laps_def pick_track_status_def pick_wo_box_def)

lemma StintLap_in_loop:
  assumes "final_laps (clean_laps driver_laps stint) \<noteq> []"
  shows "StintLap (final_laps (clean_laps driver_laps stint)) =
     map (\<lambda>l. LapNumber l - stint + 1) (final_laps (clean_laps driver_laps stint))"
  using assms final_laps_subset [of "clean_laps driver_laps stint"] clean_laps_stint
  by (intro StintLap_of_stint) auto

text \<open>What a stint leaves in the two lists when the regression raises, and when it returns.\<close>

lemma raising_stint_effect:
  assumes "stint_body driver_laps stint acc = (Caught e, acc')"
  shows "driver_degs acc' = driver_degs acc \<and>
     driver_cons acc' = driver_cons acc @
       [series_std (dropna (map LapTime (final_laps (clean_laps driver_laps stint))))]"
  using assms by (auto simp: stint_body_def Let_def split: if_splits sum.splits)

lemma completed_stint_effect:
  assumes "stint_body driver_laps stint acc = (Completed, acc')"
  shows "\<exists>slope. driver_degs acc' = driver_degs acc @ [slope] \<and>
     driver_cons acc' = driver_cons acc @
       [series_std (dropna (map LapTime (final_laps (clean_laps driver_laps stint))))]"
  using assms by (auto simp: stint_body_def Let_def split: if_splits sum.splits)

text \<open>
  The slope does not depend on a constant offset of the lap index, so the column of
  line 105 and the specification's index give the same degradation.
\<close>

lemma sum_list_shift:
  "sum_list (map (\<lambda>v. v + c) (x :: real list)) = sum_list x + real (length x) * c"
  by (induction x) (simp_all add: algebra_simps)

lemma np_mean_shift: "x \<noteq> [] \<Longrightarrow> np_mean (map (\<lambda>v. v + c) x) = np_mean x + c"
  by (simp add: np_mean_def sum_list_shift add_divide_distrib)

lemma ssxm_shift: "x \<noteq> [] \<Longrightarrow> ssxm (map (\<lambda>v. v + c) x) = ssxm x"
  by (simp add: ssxm_def np_mean_shift comp_def)

lemma ssxym_shift: "x \<noteq> [] \<Longrightarrow> ssxym (map (\<lambda>v. v + c) x) y = ssxym x y"
  by (simp add: ssxym_def np_mean_shift zip_map1 comp_def case_prod_unfold)

lemma fold_max_shift:
  "fold max (map (\<lambda>v. v + c) xs) (a + c) = fold max xs a + (c :: real)"
  by (induction xs arbitrary: a) (simp_all add: max_def)

lemma fold_min_shift:
  "fold min (map (\<lambda>v. v + c) xs) (a + c) = fold min xs a + (c :: real)"
  by (induction xs arbitrary: a) (simp_all add: min_def)

lemma amax_shift: "x \<noteq> [] \<Longrightarrow> amax (map (\<lambda>v. v + c) x) = amax x + (c :: real)"
  by (cases x) (simp_all add: fold_max_shift)

lemma amin_shift: "x \<noteq> [] \<Longrightarrow> amin (map (\<lambda>v. v + c) x) = amin x + (c :: real)"
  by (cases x) (simp_all add: fold_min_shift)

lemma linregress_shift: "linregress (map (\<lambda>v. v + c) x) y = linregress x y"
  by (cases "x = []")
    (simp_all add: linregress_def ssxm_shift ssxym_shift amax_shift amin_shift)

lemma StintLap_as_shift:
  "map real_of_int (StintLap final) =
     map (\<lambda>v. v + (1 - real_of_int (amin (map Stint final)))) (map (\<lambda>l. real_of_int (LapNumber l)) final)"
  by (simp add: StintLap_def comp_def)

lemma spec_StintLap_as_shift:
  "map real_of_int (spec_StintLap stint_laps final) =
     map (\<lambda>v. v + (1 - real_of_int (amin (map LapNumber stint_laps))))
       (map (\<lambda>l. real_of_int (LapNumber l)) final)"
  by (simp add: spec_StintLap_def comp_def)

lemma slope_same_for_both_indices:
  "linregress (map real_of_int (StintLap final)) secs =
   linregress (map real_of_int (spec_StintLap stint_laps final)) secs"
  unfolding StintLap_as_shift spec_StintLap_as_shift linregress_shift ..

section \<open>Facts about the start performance\<close>

lemma pd_merge_mem:
  "(a, b) \<in> set (pd_merge f g L R) \<longleftrightarrow> a \<in> set L \<and> b \<in> set R \<and> g b = f a"
  by (auto simp: pd_merge_def)

lemma start_performance_mem:
  "(d, v) \<in> set (get_start_performance s) \<longleftrightarrow>
     (\<exists>g l gp. g \<in> set (results s) \<and> l \<in> set (laps s) \<and> LapNumber l = 1 \<and>
        Abbreviation g = d \<and> Driver l = d \<and> GridPosition g = Some gp \<and> 0 < gp \<and>
        v = nan_sub (Some gp) (Position l))"
  (is "?L = ?R")
proof
  assume ?L
  then obtain g l where gl: "(g, l) \<in> set (pd_merge Abbreviation Driver (results s) (pick_laps 1 (laps s)))"
    and pos: "nan_gt (GridPosition g) 0" and d: "d = Driver l"
    and v: "v = nan_sub (GridPosition g) (Position l)"
    by (auto simp: get_start_performance_def Let_def)
  from pos obtain gp where gp: "GridPosition g = Some gp" "0 < gp"
    by (cases "GridPosition g") auto
  from gl have "g \<in> set (results s)" "l \<in> set (laps s)" "LapNumber l = 1" "Driver l = Abbreviation g"
    by (auto simp: pd_merge_mem pick_laps_def)
  with gp d v show ?R by auto
next
  assume ?R
  then obtain g l gp where h: "g \<in> set (results s)" "l \<in> set (laps s)" "LapNumber l = 1"
    "Abbreviation g = d" "Driver l = d" "GridPosition g = Some gp" "0 < gp"
    "v = nan_sub (Some gp) (Position l)" by blast
  then have "(g, l) \<in> set (pd_merge Abbreviation Driver (results s) (pick_laps 1 (laps s)))"
    by (simp add: pd_merge_mem pick_laps_def)
  with h show ?L
    by (force simp: get_start_performance_def Let_def)
qed

lemma start_performance_keys: "d \<in> fst ` set (get_start_performance s) \<Longrightarrow>
   d \<in> Abbreviation ` set (results s) \<and> d \<in> Driver ` set (pick_laps 1 (laps s))"
proof -
  assume "d \<in> fst ` set (get_start_performance s)"
  then obtain v where "(d, v) \<in> set (get_start_performance s)" by force
  then show ?thesis
    unfolding start_performance_mem pick_laps_def by force
qed

lemma start_performance_examples: "get_start_performance ex_p3_p5 = [(''VER'', Some (- 2))] \<and>
    get_start_performance ex_p10_p1 = [(''HAM'', Some 9)]"
  by (simp add: get_start_performance_def ex_p3_p5_def ex_p10_p1_def ex_result_def first_lap_def
      pd_merge_def pick_laps_def)

section \<open>Facts about the joins\<close>

text \<open>The rows of a left join: every left row, with each matching right value or a null.\<close>

lemma left_join_mem:
  "(k, a, b) \<in> set (left_join L R) \<longleftrightarrow>
     (k, a) \<in> set L \<and> (case b of None \<Rightarrow> k \<notin> fst ` set R | Some v \<Rightarrow> (k, v) \<in> set R)"
proof -
  have row: "(k, a, b) \<in> set (case filter (\<lambda>(k', b). k' = k0) R of
                 [] \<Rightarrow> [(k0, a0, None)]
               | m # ms \<Rightarrow> map (\<lambda>(k', b). (k0, a0, Some b)) (m # ms)) \<longleftrightarrow>
        k = k0 \<and> a = a0 \<and> (case b of None \<Rightarrow> k \<notin> fst ` set R | Some v \<Rightarrow> (k, v) \<in> set R)"
    for k0 a0
  proof (cases "filter (\<lambda>(k', b). k' = k0) R")
    case Nil
    then have "k0 \<notin> fst ` set R"
      by (force simp: filter_empty_conv)
    with Nil show ?thesis
      by (cases b) (auto simp: rev_image_eqI)
  next
    case (Cons m ms)
    then have "m \<in> set (filter (\<lambda>(k', b). k' = k0) R)" by simp
    then have in_R: "k0 \<in> fst ` set R" by force
    have "set (map (\<lambda>(k', b). (k0, a0, Some b)) (m # ms)) = {(k0, a0, Some v) | v. (k0, v) \<in> set R}"
      unfolding Cons [symmetric] by force
    with Cons in_R show ?thesis
      by (cases b) auto
  qed
  show ?thesis
    unfolding left_join_def set_concat set_map
    using row by fastforce
qed

text \<open>With unique keys on the right, the join is a lookup and keeps the left rows one to one.\<close>

lemma filter_key_distinct:
  "distinct (map fst R) \<Longrightarrow>
   filter (\<lambda>(k', b). k' = k) R = (case map_of R k of None \<Rightarrow> [] | Some v \<Rightarrow> [(k, v)])"
proof (induction R)
  case Nil
  then show ?case by simp
next
  case (Cons p R)
  obtain k0 v0 where p: "p = (k0, v0)" by (cases p)
  show ?case
  proof (cases "k0 = k")
    case True
    with Cons.prems p have "k \<notin> fst ` set R" by simp
    then have "filter (\<lambda>(k', b). k' = k) R = []"
      by (force simp: filter_empty_conv)
    with True p show ?thesis by simp
  next
    case False
    with Cons p show ?thesis by simp
  qed
qed

lemma left_join_distinct:
  assumes "distinct (map fst R)"
  shows "left_join L R = map (\<lambda>(k, a). (k, a, map_of R k)) L"
proof -
  have row: "(case filter (\<lambda>(k', b). k' = k) R of [] \<Rightarrow> [(k, a, None)]
           | m # ms \<Rightarrow> map (\<lambda>(k', b). (k, a, Some b)) (m # ms)) = [(k, a, map_of R k)]" for k a
    unfolding filter_key_distinct [OF assms]
    by (cases "map_of R k") simp_all
  show ?thesis
    unfolding left_join_def by (induction L) (auto simp: row)
qed

lemma left_join_keys:
  "distinct (map fst R) \<Longrightarrow> map fst (left_join L R) = map fst L"
  by (simp add: left_join_distinct case_prod_unfold)

text \<open>The keys of the three extractors.\<close>

lemma set_unique: "set (unique xs) = set xs"
  by (simp add: unique_def)

lemma distinct_unique: "distinct (unique xs)"
  by (simp add: unique_def)

lemma top_speeds_keys: "fst ` set (get_top_speeds ls) = Driver ` set ls"
  by (force simp: get_top_speeds_def)

lemma driver_stint_row_keys: "fst ` set (driver_stint_row ls d) \<subseteq> {d}"
  by (auto simp: driver_stint_row_def Let_def)

lemma stint_performance_keys: "fst ` set (get_stint_performance ls) \<subseteq> Driver ` set ls"
proof
  fix d assume "d \<in> fst ` set (get_stint_performance ls)"
  then obtain d' where d': "d' \<in> set (unique (map Driver ls))" and "d \<in> fst ` set (driver_stint_row ls d')"
    by (auto simp: get_stint_performance_def)
  with driver_stint_row_keys [of ls d'] have "d = d'" by blast
  with d' show "d \<in> Driver ` set ls" by (simp add: set_unique)
qed

lemma top_speeds_distinct: "distinct (map fst (get_top_speeds ls))"
  by (simp add: get_top_speeds_def comp_def)

lemma concat_keys_distinct:
  "distinct ds \<Longrightarrow> (\<And>d. fst ` set (f d) \<subseteq> {d}) \<Longrightarrow> (\<And>d. length (f d) \<le> 1) \<Longrightarrow>
   distinct (map fst (concat (map f ds)))"
proof (induction ds)
  case Nil
  then show ?case by simp
next
  case (Cons d ds)
  have one: "distinct (map fst (f d))"
    using Cons.prems(3) [of d] by (cases "f d") auto
  have rest: "distinct (map fst (concat (map f ds)))"
    using Cons by simp
  have "fst ` set (f d) \<inter> fst ` set (concat (map f ds)) = {}"
  proof -
    have "fst ` set (concat (map f ds)) \<subseteq> set ds"
      using Cons.prems(2) by fastforce
    moreover have "d \<notin> set ds" using Cons.prems(1) by simp
    ultimately show ?thesis using Cons.prems(2) [of d] by blast
  qed
  with one rest show ?case by (simp add: image_Un)
qed

lemma stint_perf_distinct: "distinct (map fst (get_stint_performance ls))"
  unfolding get_stint_performance_def
  by (rule concat_keys_distinct) (auto simp: distinct_unique driver_stint_row_def Let_def)

lemma merge_keys_distinct:
  assumes "distinct (map g R)"
  shows "distinct (map f L) \<Longrightarrow> distinct (map (f \<circ> fst) (pd_merge f g L R))"
proof (induction L)
  case Nil
  then show ?case by (simp add: pd_merge_def)
next
  case (Cons a L)
  have le: "length (filter (\<lambda>b. g b = f a) R) \<le> 1"
    using assms
  proof (induction R)
    case Nil
    then show ?case by simp
  next
    case (Cons b R)
    then show ?case by (auto simp: filter_empty_conv) (metis image_eqI)
  qed
  have step: "pd_merge f g (a # L) R = map (\<lambda>b. (a, b)) (filter (\<lambda>b. g b = f a) R) @ pd_merge f g L R"
    by (simp add: pd_merge_def)
  have keys: "(f \<circ> fst) ` set (pd_merge f g L R) \<subseteq> f ` set L"
    by (auto simp: pd_merge_def)
  have hd: "distinct (map (f \<circ> fst) (map (\<lambda>b. (a, b)) (filter (\<lambda>b. g b = f a) R)))"
    using le by (cases "filter (\<lambda>b. g b = f a) R") auto
  have tl: "distinct (map (f \<circ> fst) (pd_merge f g L R))"
    by (rule Cons.IH) (use Cons.prems in simp)
  have "f a \<notin> f ` set L" using Cons.prems by simp
  with keys have disj: "set (map (f \<circ> fst) (map (\<lambda>b. (a, b)) (filter (\<lambda>b. g b = f a) R))) \<inter>
      set (map (f \<circ> fst) (pd_merge f g L R)) = {}"
    by auto
  show ?case
    unfolding step map_append distinct_append using hd tl disj by blast
qed

lemma start_perf_distinct:
  assumes "distinct (map Abbreviation (results s))"
    and "distinct (map Driver (pick_laps 1 (laps s)))"
  shows "distinct (map fst (get_start_performance s))"
proof -
  let ?m = "pd_merge Abbreviation Driver (results s) (pick_laps 1 (laps s))"
  let ?P = "\<lambda>(g, l). nan_gt (GridPosition g) 0"
  have "map fst (get_start_performance s) = map (Driver \<circ> snd) (filter ?P ?m)"
    by (simp add: get_start_performance_def Let_def case_prod_unfold comp_def)
  also have "\<dots> = map (Abbreviation \<circ> fst) (filter ?P ?m)"
    by (rule map_cong) (auto simp: pd_merge_mem)
  finally show ?thesis
    using merge_keys_distinct [OF assms(2) assms(1)] by (simp add: distinct_map_filter)
qed

text \<open>The rows of the per-race table.\<close>

lemma race_df_mem:
  "row \<in> set (race_df s ev year) \<longleftrightarrow>
     (\<exists>r ts sp st. r \<in> set (results s) \<and>
        (case ts of None \<Rightarrow> Abbreviation r \<notin> fst ` set (get_top_speeds (laps s))
                  | Some v \<Rightarrow> (Abbreviation r, v) \<in> set (get_top_speeds (laps s))) \<and>
        (case sp of None \<Rightarrow> Abbreviation r \<notin> fst ` set (get_start_performance s)
                  | Some v \<Rightarrow> (Abbreviation r, v) \<in> set (get_start_performance s)) \<and>
        (case st of None \<Rightarrow> Abbreviation r \<notin> fst ` set (get_stint_performance (laps s))
                  | Some v \<Rightarrow> (Abbreviation r, v) \<in> set (get_stint_performance (laps s))) \<and>
        row = \<lparr>row_Driver = Abbreviation r, row_TeamName = TeamName r,
               row_Position = ResultPosition r, row_Points = Points r,
               TopSpeedST = cell ts, PositionsGained = cell sp,
               row_AvgDegradation = map_option AvgDegradation st,
               row_AvgConsistency = map_option AvgConsistency st,
               RaceName = EventName ev, RaceDate = EventDate ev, Season = year\<rparr>)"
  (is "?L = ?R")
proof
  assume ?L
  then obtain d r ts sp st where
    j: "(d, ((r, ts), sp), st) \<in> set (left_join (left_join (left_join
          (map (\<lambda>r. (Abbreviation r, r)) (results s)) (get_top_speeds (laps s)))
          (get_start_performance s)) (get_stint_performance (laps s)))"
    and row: "row = \<lparr>row_Driver = d, row_TeamName = TeamName r,
               row_Position = ResultPosition r, row_Points = Points r,
               TopSpeedST = cell ts, PositionsGained = cell sp,
               row_AvgDegradation = map_option AvgDegradation st,
               row_AvgConsistency = map_option AvgConsistency st,
               RaceName = EventName ev, RaceDate = EventDate ev, Season = year\<rparr>"
    by (auto simp: race_df_def Let_def)
  from j have "r \<in> set (results s) \<and> d = Abbreviation r" 
    by (auto simp: left_join_mem)
  with j row show ?R
    unfolding left_join_mem by blast
next
  assume ?R
  then obtain r ts sp st where r: "r \<in> set (results s)"
    and ts: "(case ts of None \<Rightarrow> Abbreviation r \<notin> fst ` set (get_top_speeds (laps s))
                  | Some v \<Rightarrow> (Abbreviation r, v) \<in> set (get_top_speeds (laps s)))"
    and sp: "(case sp of None \<Rightarrow> Abbreviation r \<notin> fst ` set (get_start_performance s)
                  | Some v \<Rightarrow> (Abbreviation r, v) \<in> set (get_start_performance s))"
    and st: "(case st of None \<Rightarrow> Abbreviation r \<notin> fst ` set (get_stint_performance (laps s))
                  | Some v \<Rightarrow> (Abbreviation r, v) \<in> set (get_stint_performance (laps s)))"
    and row: "row = \<lparr>row_Driver = Abbreviation r, row_TeamName = TeamName r,
               row_Position = ResultPosition r, row_Points = Points r,
               TopSpeedST = cell ts, PositionsGained = cell sp,
               row_AvgDegradation = map_option AvgDegradation st,
               row_AvgConsistency = map_option AvgConsistency st,
               RaceName = EventName ev, RaceDate = EventDate ev, Season = year\<rparr>"
    by blast
  from r have "(Abbreviation r, r) \<in> set (map (\<lambda>r. (Abbreviation r, r)) (results s))" by auto
  with ts sp st have "(Abbreviation r, ((r, ts), sp), st) \<in> set (left_join (left_join (left_join
          (map (\<lambda>r. (Abbreviation r, r)) (results s)) (get_top_speeds (laps s)))
          (get_start_performance s)) (get_stint_performance (laps s)))"
    unfolding left_join_mem by blast
  then show ?L
    unfolding race_df_def Let_def row by force
qed

lemma option_case_ex: "\<exists>b. case b of None \<Rightarrow> P | Some v \<Rightarrow> Q v" if "\<not> P \<Longrightarrow> \<exists>v. Q v"
  using that by (cases P) (auto intro: exI [of _ None] exI [of _ "Some _"])

lemma key_case_ex: "\<exists>b. case b of None \<Rightarrow> k \<notin> fst ` set R | Some v \<Rightarrow> (k, v) \<in> set R"
  by (rule option_case_ex) force

lemma race_df_keeps:
  assumes "r \<in> set (results s)"
  shows "\<exists>row \<in> set (race_df s ev year). row_Driver row = Abbreviation r \<and>
     row_TeamName row = TeamName r \<and> row_Position row = ResultPosition r \<and> row_Points row = Points r"
proof -
  obtain ts where ts: "case ts of None \<Rightarrow> Abbreviation r \<notin> fst ` set (get_top_speeds (laps s))
                  | Some v \<Rightarrow> (Abbreviation r, v) \<in> set (get_top_speeds (laps s))"
    using key_case_ex [of "Abbreviation r" "get_top_speeds (laps s)"] by (elim exE)
  obtain sp where sp: "case sp of None \<Rightarrow> Abbreviation r \<notin> fst ` set (get_start_performance s)
                  | Some v \<Rightarrow> (Abbreviation r, v) \<in> set (get_start_performance s)"
    using key_case_ex [of "Abbreviation r" "get_start_performance s"] by (elim exE)
  obtain st where st: "case st of None \<Rightarrow> Abbreviation r \<notin> fst ` set (get_stint_performance (laps s))
                  | Some v \<Rightarrow> (Abbreviation r, v) \<in> set (get_stint_performance (laps s))"
    using key_case_ex [of "Abbreviation r" "get_stint_performance (laps s)"] by (elim exE)
  let ?row = "\<lparr>row_Driver = Abbreviation r, row_TeamName = TeamName r,
               row_Position = ResultPosition r, row_Points = Points r,
               TopSpeedST = cell ts, PositionsGained = cell sp,
               row_AvgDegradation = map_option AvgDegradation st,
               row_AvgConsistency = map_option AvgConsistency st,
               RaceName = EventName ev, RaceDate = EventDate ev, Season = year\<rparr>"
  from assms ts sp st have "?row \<in> set (race_df s ev year)"
    unfolding race_df_mem by blast
  then show ?thesis by (intro bexI [of _ ?row]) simp_all
qed

lemma race_df_null:
  assumes "row \<in> set (race_df s ev year)"
  shows "(row_Driver row \<notin> fst ` set (get_top_speeds (laps s)) \<longrightarrow> TopSpeedST row = None) \<and>
     (row_Driver row \<notin> fst ` set (get_start_performance s) \<longrightarrow> PositionsGained row = None) \<and>
     (row_Driver row \<notin> fst ` set (get_stint_performance (laps s)) \<longrightarrow>
        row_AvgDegradation row = None \<and> row_AvgConsistency row = None)"
proof -
  from assms obtain r ts sp st where r: "r \<in> set (results s)"
    and ts: "(case ts of None \<Rightarrow> Abbreviation r \<notin> fst ` set (get_top_speeds (laps s))
                  | Some v \<Rightarrow> (Abbreviation r, v) \<in> set (get_top_speeds (laps s)))"
    and sp: "(case sp of None \<Rightarrow> Abbreviation r \<notin> fst ` set (get_start_performance s)
                  | Some v \<Rightarrow> (Abbreviation r, v) \<in> set (get_start_performance s))"
    and st: "(case st of None \<Rightarrow> Abbreviation r \<notin> fst ` set (get_stint_performance (laps s))
                  | Some v \<Rightarrow> (Abbreviation r, v) \<in> set (get_stint_performance (laps s)))"
    and row: "row = \<lparr>row_Driver = Abbreviation r, row_TeamName = TeamName r,
               row_Position = ResultPosition r, row_Points = Points r,
               TopSpeedST = cell ts, PositionsGained = cell sp,
               row_AvgDegradation = map_option AvgDegradation st,
               row_AvgConsistency = map_option AvgConsistency st,
               RaceName = EventName ev, RaceDate = EventDate ev, Season = year\<rparr>"
    unfolding race_df_mem by blast
  have a: "Abbreviation r \<notin> fst ` set (get_top_speeds (laps s)) \<Longrightarrow> ts = None"
    using ts by (cases ts) (auto simp: rev_image_eqI)
  have b: "Abbreviation r \<notin> fst ` set (get_start_performance s) \<Longrightarrow> sp = None"
    using sp by (cases sp) (auto simp: rev_image_eqI)
  have c: "Abbreviation r \<notin> fst ` set (get_stint_performance (laps s)) \<Longrightarrow> st = None"
    using st by (cases st) (auto simp: rev_image_eqI)
  show ?thesis using a b c by (auto simp: row cell_def)
qed

lemma race_df_no_laps:
  assumes "row \<in> set (race_df s ev year)" "row_Driver row \<notin> Driver ` set (laps s)"
  shows "TopSpeedST row = None \<and> PositionsGained row = None \<and>
         row_AvgDegradation row = None \<and> row_AvgConsistency row = None"
proof -
  have "row_Driver row \<notin> fst ` set (get_top_speeds (laps s))"
    using assms(2) by (simp add: top_speeds_keys)
  moreover have "row_Driver row \<notin> fst ` set (get_start_performance s)"
    using assms(2) start_performance_keys [of "row_Driver row" s] by (auto simp: pick_laps_def)
  moreover have "row_Driver row \<notin> fst ` set (get_stint_performance (laps s))"
    using assms(2) stint_performance_keys [of "laps s"] by blast
  ultimately show ?thesis using race_df_null [OF assms(1)] by blast
qed

lemma race_df_drivers:
  assumes "distinct (map Abbreviation (results s))"
    and "distinct (map Driver (pick_laps 1 (laps s)))"
  shows "map row_Driver (race_df s ev year) = map Abbreviation (results s)"
proof -
  have "map row_Driver (race_df s ev year) =
      map fst (left_join (left_join (left_join
          (map (\<lambda>r. (Abbreviation r, r)) (results s)) (get_top_speeds (laps s)))
          (get_start_performance s)) (get_stint_performance (laps s)))"
    by (simp add: race_df_def Let_def case_prod_unfold comp_def)
  also have "\<dots> = map Abbreviation (results s)"
    by (simp add: left_join_keys top_speeds_distinct stint_perf_distinct
        start_perf_distinct [OF assms] comp_def)
  finally show ?thesis .
qed

text \<open>A driver who is in an extractor's output gets a value of that output.\<close>

lemma race_df_value:
  assumes "row \<in> set (race_df s ev year)"
  shows "(row_Driver row \<in> fst ` set (get_top_speeds (laps s)) \<longrightarrow>
            (\<exists>v. (row_Driver row, v) \<in> set (get_top_speeds (laps s)) \<and> TopSpeedST row = v)) \<and>
         (row_Driver row \<in> fst ` set (get_start_performance s) \<longrightarrow>
            (\<exists>v. (row_Driver row, v) \<in> set (get_start_performance s) \<and>
                 PositionsGained row = v)) \<and>
         (row_Driver row \<in> fst ` set (get_stint_performance (laps s)) \<longrightarrow>
            (\<exists>v. (row_Driver row, v) \<in> set (get_stint_performance (laps s)) \<and>
                 row_AvgDegradation row = Some (AvgDegradation v) \<and>
                 row_AvgConsistency row = Some (AvgConsistency v)))"
proof -
  from assms obtain r ts sp st where r: "r \<in> set (results s)"
    and ts: "(case ts of None \<Rightarrow> Abbreviation r \<notin> fst ` set (get_top_speeds (laps s))
                  | Some v \<Rightarrow> (Abbreviation r, v) \<in> set (get_top_speeds (laps s)))"
    and sp: "(case sp of None \<Rightarrow> Abbreviation r \<notin> fst ` set (get_start_performance s)
                  | Some v \<Rightarrow> (Abbreviation r, v) \<in> set (get_start_performance s))"
    and st: "(case st of None \<Rightarrow> Abbreviation r \<notin> fst ` set (get_stint_performance (laps s))
                  | Some v \<Rightarrow> (Abbreviation r, v) \<in> set (get_stint_performance (laps s)))"
    and row: "row = \<lparr>row_Driver = Abbreviation r, row_TeamName = TeamName r,
               row_Position = ResultPosition r, row_Points = Points r,
               TopSpeedST = cell ts, PositionsGained = cell sp,
               row_AvgDegradation = map_option AvgDegradation st,
               row_AvgConsistency = map_option AvgConsistency st,
               RaceName = EventName ev, RaceDate = EventDate ev, Season = year\<rparr>"
    unfolding race_df_mem by blast
  have a: "Abbreviation r \<in> fst ` set (get_top_speeds (laps s)) \<Longrightarrow>
      \<exists>v. (Abbreviation r, v) \<in> set (get_top_speeds (laps s)) \<and> cell ts = v"
    using ts by (cases ts) (auto simp: cell_def)
  have b: "Abbreviation r \<in> fst ` set (get_start_performance s) \<Longrightarrow>
      \<exists>v. (Abbreviation r, v) \<in> set (get_start_performance s) \<and> cell sp = v"
    using sp by (cases sp) (auto simp: cell_def)
  have c: "Abbreviation r \<in> fst ` set (get_stint_performance (laps s)) \<Longrightarrow>
      \<exists>v. (Abbreviation r, v) \<in> set (get_stint_performance (laps s)) \<and> st = Some v"
    using st by (cases st) auto
  show ?thesis
    using a b c by (auto simp: row)
qed

lemma race_df_lookup:
  assumes "distinct (map Abbreviation (results s))"
    and "distinct (map Driver (pick_laps 1 (laps s)))"
  shows "race_df s ev year =
     map (\<lambda>r.
       \<lparr>row_Driver = Abbreviation r, row_TeamName = TeamName r,
        row_Position = ResultPosition r, row_Points = Points r,
        TopSpeedST = cell (map_of (get_top_speeds (laps s)) (Abbreviation r)),
        PositionsGained = cell (map_of (get_start_performance s) (Abbreviation r)),
        row_AvgDegradation =
          map_option AvgDegradation (map_of (get_stint_performance (laps s)) (Abbreviation r)),
        row_AvgConsistency =
          map_option AvgConsistency (map_of (get_stint_performance (laps s)) (Abbreviation r)),
        RaceName = EventName ev, RaceDate = EventDate ev, Season = year\<rparr>) (results s)"
  unfolding race_df_def Let_def
  by (simp add: left_join_distinct top_speeds_distinct stint_perf_distinct
      start_perf_distinct [OF assms] comp_def case_prod_unfold)

text \<open>The three extractors on \<open>ex_race\<close>.\<close>

lemma ex_race_top_speeds:
  "get_top_speeds (laps ex_race) = [(''BOT'', Some 300), (''VER'', Some 315)]"
  by (simp add: get_top_speeds_def ex_race_def race_lap_def pick_drivers_def group_max_def)

lemma ex_race_start_performance:
  "get_start_performance ex_race = [(''VER'', Some (- 2))]"
  by (simp add: get_start_performance_def ex_race_def ex_result_def race_lap_def
      pd_merge_def pick_laps_def)

lemma ex_race_stint_performance:
  "get_stint_performance (laps ex_race) =
     [(''VER'', \<lparr>AvgDegradation = 2, AvgConsistency = 2\<rparr>)]"
  by (simp add: ex_race_def race_lap_def clean_laps_def pick_track_status_def pick_wo_box_def
      pick_drivers_def final_laps_def series_mean_def np_mean_def StintLap_def stint_body_def
      linregress_def ssxm_def ssxym_def series_std_def unique_def driver_stint_row_def
      get_stint_performance_def power2_eq_square)

section \<open>Facts about the season loop\<close>

lemma races_attempted_append [simp]:
  "races_attempted (xs @ ys) = races_attempted xs @ races_attempted ys"
  by (simp add: races_attempted_def)

lemma races_attempted_simps [simp]:
  "races_attempted [] = []"
  "races_attempted (ProcessingRace n y # lg) = (n, y) # races_attempted lg"
  "races_attempted (Processed n # lg) = races_attempted lg"
  "races_attempted (CouldNotProcess n y e # lg) = races_attempted lg"
  "races_attempted (ProcessingYear y # lg) = races_attempted lg"
  by (simp_all add: races_attempted_def)






section \<open>Claims on get\_stint\_performance\<close>

text \<open>
  C1. The claim: the in-stint lap index of the regression is the lap number minus the
  stint's first lap number, offset to start at 1. Line 105 subtracts the minimum of the
  column \<^verbatim>\<open>Stint\<close>, that is the stint's number, not its first lap number: for a second
  stint over laps 20, 21, 22 the code's indices are 19, 20, 21, where the claim's are
  1, 2, 3.
\<close>

theorem C1_stint_lap_subtracts_stint_number:
  "StintLap (final_laps (clean_laps ex_second_stint 2)) = [19, 20, 21] \<and>
   spec_StintLap (filter (\<lambda>l. Stint l = 2) ex_second_stint)
     (final_laps (clean_laps ex_second_stint 2)) = [1, 2, 3]"
  by (simp add: ex_second_stint_def spec_StintLap_def stint_defs)

text \<open>
  C2. The claim: a stint whose processing raises contributes neither its consistency nor
  its degradation to the driver's averages. The consistency is appended before the
  regression runs, so when the regression raises it stays in the list: here the first
  stint raises ValueError after its consistency 2 was recorded, the second stint gives
  consistency 0 and degradation 0, and the driver's AvgConsistency is 1, not 0.
\<close>

theorem C2_raising_stint_keeps_its_consistency:
  "stint_body ex_repeated_lap 1 \<lparr>driver_degs = [], driver_cons = []\<rparr>
     = (Caught ValueError, \<lparr>driver_degs = [], driver_cons = [2]\<rparr>) \<and>
   get_stint_performance ex_repeated_lap
     = [(''VER'', \<lparr>AvgDegradation = 0, AvgConsistency = 1\<rparr>)] \<and>
   get_stint_performance (filter (\<lambda>l. Stint l = 2) ex_repeated_lap)
     = [(''VER'', \<lparr>AvgDegradation = 0, AvgConsistency = 0\<rparr>)]"
  by (simp add: ex_repeated_lap_def stint_defs power2_eq_square)




text \<open>
  C5. A stint whose clean lap set has fewer than 3 laps, before or after the outlier
  filter, leaves the \<^verbatim>\<open>try\<close> block through \<^verbatim>\<open>continue\<close>, not through the handler: no
  consistency and no degradation is recorded, and the loop goes on with the next stint
  as if this one were not there.
\<close>

theorem C5_short_stint_emits_nothing:
  "length (clean_laps driver_laps stint) < 3 \<or>
   length (final_laps (clean_laps driver_laps stint)) < 3 \<Longrightarrow>
     stint_body driver_laps stint acc = (NotEnoughData, acc) \<and>
     stint_loop driver_laps (stint # rest) acc = stint_loop driver_laps rest acc"
  by (auto simp: stint_body_def Let_def)

theorem C5_short_stint_witness:
  "length (clean_laps ex_two_laps 1) < 3 \<and>
   stint_body ex_two_laps 1 \<lparr>driver_degs = [], driver_cons = []\<rparr>
     = (NotEnoughData, \<lparr>driver_degs = [], driver_cons = []\<rparr>) \<and>
   \<not> length (clean_laps ex_one_slow 1) < 3 \<and>
   length (final_laps (clean_laps ex_one_slow 1)) < 3 \<and>
   stint_body ex_one_slow 1 \<lparr>driver_degs = [], driver_cons = []\<rparr>
     = (NotEnoughData, \<lparr>driver_degs = [], driver_cons = []\<rparr>)"
proof -
  have a: "length (clean_laps ex_two_laps 1) < 3"
    by (simp add: ex_two_laps_def stint_defs)
  have b: "\<not> length (clean_laps ex_one_slow 1) < 3"
    by (simp add: ex_one_slow_def stint_defs)
  have c: "length (final_laps (clean_laps ex_one_slow 1)) < 3"
    by (simp add: ex_one_slow_def stint_defs)
  from a b c
    C5_short_stint_emits_nothing [of ex_two_laps 1 "\<lparr>driver_degs = [], driver_cons = []\<rparr>" "[]"]
    C5_short_stint_emits_nothing [of ex_one_slow 1 "\<lparr>driver_degs = [], driver_cons = []\<rparr>" "[]"]
  show ?thesis by blast
qed

text \<open>
  C8. Over the stint-lap indices 1, 2, 3, 4 the lap times 90, 91, 92, 93 give the slope
  1, and the lap times 90, 90, 90 give the standard deviation 0; the same values come
  out of \<open>get_stint_performance\<close> for a first stint with these laps. The arithmetic is
  exact: every intermediate value of the two computations is a binary fraction.
\<close>

theorem C8_slope_one_and_consistency_zero:
  "linregress [1, 2, 3, 4] [90, 91, 92, 93] = Inr 1 \<and>
   series_std [90, 90, 90] = 0 \<and>
   StintLap (final_laps (clean_laps ex_increasing 1)) = [1, 2, 3, 4] \<and>
   map (\<lambda>(d, r). (d, AvgDegradation r)) (get_stint_performance ex_increasing) = [(''VER'', 1)] \<and>
   map (\<lambda>(d, r). (d, AvgConsistency r)) (get_stint_performance ex_constant) = [(''VER'', 0)]"
  by (simp add: ex_increasing_def ex_constant_def stint_defs power2_eq_square)

section \<open>Claims on get\_start\_performance\<close>

text \<open>
  C6. The result of \<open>get_start_performance\<close> holds exactly the pairs of a driver and a
  value for which a results row and a first-lap row carry that driver's identifier, the
  grid position is positive, and the value is the grid position minus the first-lap
  position (a missing first-lap position gives a missing value). A start from P3 that
  runs P5 on lap 1 gives -2, and P10 to P1 gives +9.
\<close>

theorem C6_positions_gained:
  "((d, v) \<in> set (get_start_performance s)) =
     (\<exists>g l gp. g \<in> set (results s) \<and> l \<in> set (laps s) \<and> LapNumber l = 1 \<and>
        Abbreviation g = d \<and> Driver l = d \<and> GridPosition g = Some gp \<and> 0 < gp \<and>
        v = nan_sub (Some gp) (Position l)) \<and>
   get_start_performance ex_p3_p5 = [(''VER'', Some (- 2))] \<and>
   get_start_performance ex_p10_p1 = [(''HAM'', Some 9)]"
  using start_performance_mem [of d v s] start_performance_examples by blast

theorem C6_positions_gained_witness:
  "(''VER'', Some (- 2)) \<in> set (get_start_performance ex_p3_p5) \<and>
   (''HAM'', Some 9) \<in> set (get_start_performance ex_p10_p1)"
proof -
  have a: "\<exists>g l gp. g \<in> set (results ex_p3_p5) \<and> l \<in> set (laps ex_p3_p5) \<and> LapNumber l = 1 \<and>
        Abbreviation g = ''VER'' \<and> Driver l = ''VER'' \<and> GridPosition g = Some gp \<and> 0 < gp \<and>
        Some (- 2) = nan_sub (Some gp) (Position l)"
    by (intro exI [of _ "ex_result ''VER'' 3"] exI [of _ "first_lap ''VER'' 5"] exI [of _ 3])
      (simp add: ex_p3_p5_def ex_result_def first_lap_def)
  have b: "\<exists>g l gp. g \<in> set (results ex_p10_p1) \<and> l \<in> set (laps ex_p10_p1) \<and> LapNumber l = 1 \<and>
        Abbreviation g = ''HAM'' \<and> Driver l = ''HAM'' \<and> GridPosition g = Some gp \<and> 0 < gp \<and>
        Some 9 = nan_sub (Some gp) (Position l)"
    by (intro exI [of _ "ex_result ''HAM'' 10"] exI [of _ "first_lap ''HAM'' 1"] exI [of _ 10])
      (simp add: ex_p10_p1_def ex_result_def first_lap_def)
  from a b C6_positions_gained [of "''VER''" "Some (- 2)" ex_p3_p5] C6_positions_gained [of "''HAM''" "Some 9" ex_p10_p1]
  show ?thesis by blast
qed

text \<open>
  C10. The join of grid and first-lap data is an inner join: a driver who is missing from
  the results or from the first-lap rows has no entry in the returned mapping. For a
  classified driver without a first-lap row, the per-race table still has a row, and
  every row of that driver has a null in \<^verbatim>\<open>PositionsGained\<close>.
\<close>

theorem C10_start_join_is_inner:
  "(d \<notin> Abbreviation ` set (results s) \<or> d \<notin> Driver ` set (pick_laps 1 (laps s)) \<longrightarrow>
      d \<notin> fst ` set (get_start_performance s)) \<and>
   (r \<in> set (results s) \<and> Abbreviation r \<notin> Driver ` set (pick_laps 1 (laps s)) \<longrightarrow>
      (\<exists>row \<in> set (race_df s ev year). row_Driver row = Abbreviation r) \<and>
      (\<forall>row \<in> set (race_df s ev year).
         row_Driver row = Abbreviation r \<longrightarrow> PositionsGained row = None))"
proof (intro conjI impI)
  assume "d \<notin> Abbreviation ` set (results s) \<or> d \<notin> Driver ` set (pick_laps 1 (laps s))"
  then show "d \<notin> fst ` set (get_start_performance s)"
    using start_performance_keys [of d s] by blast
next
  assume "r \<in> set (results s) \<and> Abbreviation r \<notin> Driver ` set (pick_laps 1 (laps s))"
  then show "\<exists>row \<in> set (race_df s ev year). row_Driver row = Abbreviation r"
    using race_df_keeps [of r s ev year] by blast
next
  assume a: "r \<in> set (results s) \<and> Abbreviation r \<notin> Driver ` set (pick_laps 1 (laps s))"
  then have "Abbreviation r \<notin> fst ` set (get_start_performance s)"
    using start_performance_keys [of "Abbreviation r" s] by blast
  then show "\<forall>row \<in> set (race_df s ev year).
         row_Driver row = Abbreviation r \<longrightarrow> PositionsGained row = None"
    using race_df_null by metis
qed

theorem C10_start_join_witness:
  "ex_result ''HAM'' 10 \<in> set (results ex_missing) \<and>
   ''HAM'' \<notin> Driver ` set (pick_laps 1 (laps ex_missing)) \<and>
   ''HAM'' \<notin> fst ` set (get_start_performance ex_missing) \<and>
   ''BOT'' \<notin> Abbreviation ` set (results ex_missing) \<and>
   ''BOT'' \<notin> fst ` set (get_start_performance ex_missing) \<and>
   (\<exists>row \<in> set (race_df ex_missing (ex_event ''Saudi Arabian Grand Prix'' ''conventional'') 2024).
      row_Driver row = ''HAM'' \<and> PositionsGained row = None)"
proof -
  let ?ev = "ex_event ''Saudi Arabian Grand Prix'' ''conventional''"
  have r: "ex_result ''HAM'' 10 \<in> set (results ex_missing)"
    by (simp add: ex_missing_def)
  have ab: "Abbreviation (ex_result ''HAM'' 10) = ''HAM''"
    by (simp add: ex_result_def)
  have nl: "''HAM'' \<notin> Driver ` set (pick_laps 1 (laps ex_missing))"
    by (simp add: ex_missing_def first_lap_def pick_laps_def)
  have nb: "''BOT'' \<notin> Abbreviation ` set (results ex_missing)"
    by (simp add: ex_missing_def ex_result_def)
  from C10_start_join_is_inner [of "''HAM''" ex_missing "ex_result ''HAM'' 10" ?ev 2024] nl
  have h: "''HAM'' \<notin> fst ` set (get_start_performance ex_missing)" by blast
  from C10_start_join_is_inner [of "''BOT''" ex_missing "ex_result ''HAM'' 10" ?ev 2024] nb
  have b: "''BOT'' \<notin> fst ` set (get_start_performance ex_missing)" by blast
  from C10_start_join_is_inner [of "''HAM''" ex_missing "ex_result ''HAM'' 10" ?ev 2024] r nl
  have "(\<exists>row \<in> set (race_df ex_missing ?ev 2024). row_Driver row = ''HAM'') \<and>
      (\<forall>row \<in> set (race_df ex_missing ?ev 2024).
         row_Driver row = ''HAM'' \<longrightarrow> PositionsGained row = None)"
    unfolding ab by blast
  then have ex: "\<exists>row \<in> set (race_df ex_missing ?ev 2024).
      row_Driver row = ''HAM'' \<and> PositionsGained row = None"
    by blast
  from r nl h nb b ex show ?thesis by blast
qed

section \<open>Claims on the per-race table\<close>

text \<open>
  C4. For a session that has loaded, every row of the official results has a row in the
  per-race table with the same driver, team, position and points. A row whose driver is
  missing from an extractor's output has a null in that extractor's columns, and a
  driver without any lap record has nulls in all four metric columns. A row whose
  driver is in an extractor's output carries a value that this output holds for the
  driver. When the results and the first-lap rows each name a driver at most once, the
  table is the results, row by row and in order, each with the three extractors' values
  looked up by the driver's identifier.
\<close>

theorem C4_left_join_keeps_every_result_row:
  "(\<forall>r \<in> set (results s). \<exists>row \<in> set (race_df s ev year).
      row_Driver row = Abbreviation r \<and> row_TeamName row = TeamName r \<and>
      row_Position row = ResultPosition r \<and> row_Points row = Points r) \<and>
   (\<forall>row \<in> set (race_df s ev year).
      (row_Driver row \<notin> fst ` set (get_top_speeds (laps s)) \<longrightarrow> TopSpeedST row = None) \<and>
      (row_Driver row \<notin> fst ` set (get_start_performance s) \<longrightarrow> PositionsGained row = None) \<and>
      (row_Driver row \<notin> fst ` set (get_stint_performance (laps s)) \<longrightarrow>
         row_AvgDegradation row = None \<and> row_AvgConsistency row = None) \<and>
      (row_Driver row \<notin> Driver ` set (laps s) \<longrightarrow>
         TopSpeedST row = None \<and> PositionsGained row = None \<and>
         row_AvgDegradation row = None \<and> row_AvgConsistency row = None)) \<and>
   (\<forall>row \<in> set (race_df s ev year).
      (row_Driver row \<in> fst ` set (get_top_speeds (laps s)) \<longrightarrow>
         (\<exists>v. (row_Driver row, v) \<in> set (get_top_speeds (laps s)) \<and> TopSpeedST row = v)) \<and>
      (row_Driver row \<in> fst ` set (get_start_performance s) \<longrightarrow>
         (\<exists>v. (row_Driver row, v) \<in> set (get_start_performance s) \<and>
              PositionsGained row = v)) \<and>
      (row_Driver row \<in> fst ` set (get_stint_performance (laps s)) \<longrightarrow>
         (\<exists>v. (row_Driver row, v) \<in> set (get_stint_performance (laps s)) \<and>
              row_AvgDegradation row = Some (AvgDegradation v) \<and>
              row_AvgConsistency row = Some (AvgConsistency v)))) \<and>
   (distinct (map Abbreviation (results s)) \<and> distinct (map Driver (pick_laps 1 (laps s))) \<longrightarrow>
      map row_Driver (race_df s ev year) = map Abbreviation (results s) \<and>
      race_df s ev year =
        map (\<lambda>r.
          \<lparr>row_Driver = Abbreviation r, row_TeamName = TeamName r,
           row_Position = ResultPosition r, row_Points = Points r,
           TopSpeedST = cell (map_of (get_top_speeds (laps s)) (Abbreviation r)),
           PositionsGained = cell (map_of (get_start_performance s) (Abbreviation r)),
           row_AvgDegradation =
             map_option AvgDegradation
               (map_of (get_stint_performance (laps s)) (Abbreviation r)),
           row_AvgConsistency =
             map_option AvgConsistency
               (map_of (get_stint_performance (laps s)) (Abbreviation r)),
           RaceName = EventName ev, RaceDate = EventDate ev, Season = year\<rparr>) (results s))"
proof (intro conjI ballI impI)
  fix r assume "r \<in> set (results s)"
  then show "\<exists>row \<in> set (race_df s ev year).
      row_Driver row = Abbreviation r \<and> row_TeamName row = TeamName r \<and>
      row_Position row = ResultPosition r \<and> row_Points row = Points r"
    by (rule race_df_keeps)
next
  fix row assume row: "row \<in> set (race_df s ev year)"
  {
    assume "row_Driver row \<notin> fst ` set (get_top_speeds (laps s))"
    then show "TopSpeedST row = None" using race_df_null [OF row] by blast
  }
  {
    assume "row_Driver row \<notin> fst ` set (get_start_performance s)"
    then show "PositionsGained row = None" using race_df_null [OF row] by blast
  }
  {
    assume "row_Driver row \<notin> fst ` set (get_stint_performance (laps s))"
    then show "row_AvgDegradation row = None" "row_AvgConsistency row = None"
      using race_df_null [OF row] by blast+
  }
  {
    assume "row_Driver row \<notin> Driver ` set (laps s)"
    then show "TopSpeedST row = None" "PositionsGained row = None"
      "row_AvgDegradation row = None" "row_AvgConsistency row = None"
      using race_df_no_laps [OF row] by blast+
  }
  {
    assume "row_Driver row \<in> fst ` set (get_top_speeds (laps s))"
    then show "\<exists>v. (row_Driver row, v) \<in> set (get_top_speeds (laps s)) \<and> TopSpeedST row = v"
      using race_df_value [OF row] by blast
  }
  {
    assume "row_Driver row \<in> fst ` set (get_start_performance s)"
    then show "\<exists>v. (row_Driver row, v) \<in> set (get_start_performance s) \<and>
              PositionsGained row = v"
      using race_df_value [OF row] by blast
  }
  {
    assume "row_Driver row \<in> fst ` set (get_stint_performance (laps s))"
    then show "\<exists>v. (row_Driver row, v) \<in> set (get_stint_performance (laps s)) \<and>
              row_AvgDegradation row = Some (AvgDegradation v) \<and>
              row_AvgConsistency row = Some (AvgConsistency v)"
      using race_df_value [OF row] by blast
  }
next
  assume d: "distinct (map Abbreviation (results s)) \<and>
      distinct (map Driver (pick_laps 1 (laps s)))"
  then show "map row_Driver (race_df s ev year) = map Abbreviation (results s)"
    using race_df_drivers [of s ev year] by blast
  from d show "race_df s ev year =
        map (\<lambda>r.
          \<lparr>row_Driver = Abbreviation r, row_TeamName = TeamName r,
           row_Position = ResultPosition r, row_Points = Points r,
           TopSpeedST = cell (map_of (get_top_speeds (laps s)) (Abbreviation r)),
           PositionsGained = cell (map_of (get_start_performance s) (Abbreviation r)),
           row_AvgDegradation =
             map_option AvgDegradation
               (map_of (get_stint_performance (laps s)) (Abbreviation r)),
           row_AvgConsistency =
             map_option AvgConsistency
               (map_of (get_stint_performance (laps s)) (Abbreviation r)),
           RaceName = EventName ev, RaceDate = EventDate ev, Season = year\<rparr>) (results s)"
    using race_df_lookup [of s ev year] by blast
qed

theorem C4_left_join_witness:
  "distinct (map Abbreviation (results ex_race)) \<and>
   distinct (map Driver (pick_laps 1 (laps ex_race))) \<and>
   ''HAM'' \<notin> Driver ` set (laps ex_race) \<and>
   race_df ex_race (ex_event ''Saudi Arabian Grand Prix'' ''conventional'') 2024 =
     [\<lparr>row_Driver = ''VER'', row_TeamName = ''Team'', row_Position = Some 1, row_Points = 25,
       TopSpeedST = Some 315, PositionsGained = Some (- 2), row_AvgDegradation = Some 2,
       row_AvgConsistency = Some 2, RaceName = ''Saudi Arabian Grand Prix'',
       RaceDate = ''2024-03-02'', Season = 2024\<rparr>,
      \<lparr>row_Driver = ''HAM'', row_TeamName = ''Team'', row_Position = Some 1, row_Points = 25,
       TopSpeedST = None, PositionsGained = None, row_AvgDegradation = None,
       row_AvgConsistency = None, RaceName = ''Saudi Arabian Grand Prix'',
       RaceDate = ''2024-03-02'', Season = 2024\<rparr>]"
proof -
  let ?ev = "ex_event ''Saudi Arabian Grand Prix'' ''conventional''"
  have d1: "distinct (map Abbreviation (results ex_race))"
    by (simp add: ex_race_def ex_result_def)
  have d2: "distinct (map Driver (pick_laps 1 (laps ex_race)))"
    by (simp add: ex_race_def race_lap_def pick_laps_def)
  have nl: "''HAM'' \<notin> Driver ` set (laps ex_race)"
    by (simp add: ex_race_def race_lap_def)
  from C4_left_join_keeps_every_result_row [of ex_race ?ev 2024] d1 d2
  have "race_df ex_race ?ev 2024 =
        map (\<lambda>r.
          \<lparr>row_Driver = Abbreviation r, row_TeamName = TeamName r,
           row_Position = ResultPosition r, row_Points = Points r,
           TopSpeedST = cell (map_of (get_top_speeds (laps ex_race)) (Abbreviation r)),
           PositionsGained = cell (map_of (get_start_performance ex_race) (Abbreviation r)),
           row_AvgDegradation =
             map_option AvgDegradation
               (map_of (get_stint_performance (laps ex_race)) (Abbreviation r)),
           row_AvgConsistency =
             map_option AvgConsistency
               (map_of (get_stint_performance (laps ex_race)) (Abbreviation r)),
           RaceName = EventName ?ev, RaceDate = EventDate ?ev, Season = 2024\<rparr>)
          (results ex_race)"
    by blast
  then have "race_df ex_race ?ev 2024 =
     [\<lparr>row_Driver = ''VER'', row_TeamName = ''Team'', row_Position = Some 1, row_Points = 25,
       TopSpeedST = Some 315, PositionsGained = Some (- 2), row_AvgDegradation = Some 2,
       row_AvgConsistency = Some 2, RaceName = ''Saudi Arabian Grand Prix'',
       RaceDate = ''2024-03-02'', Season = 2024\<rparr>,
      \<lparr>row_Driver = ''HAM'', row_TeamName = ''Team'', row_Position = Some 1, row_Points = 25,
       TopSpeedST = None, PositionsGained = None, row_AvgDegradation = None,
       row_AvgConsistency = None, RaceName = ''Saudi Arabian Grand Prix'',
       RaceDate = ''2024-03-02'', Season = 2024\<rparr>]"
    unfolding ex_race_top_speeds ex_race_start_performance ex_race_stint_performance
    by (simp add: ex_race_def ex_result_def ex_event_def cell_def)
  with d1 d2 nl show ?thesis by blast
qed

section \<open>Claims on main\<close>





end
